theory Spec2Isabelle
  imports Main
begin

section \<open>Strings and exceptions\<close>

text \<open>
  A Python \<open>str\<close> is a sequence of Unicode code points and \<open>len\<close> counts code points
  (the catalog contains U+2014, one character in Python, three bytes in UTF-8). So a
  Python string is a list of code points here, and \<open>u\<close> turns an ASCII literal into one.
\<close>

type_synonym pystr = "nat list"

definition u :: "string \<Rightarrow> pystr" where
  "u s = map of_char s"

text \<open>
  The exceptions the code can raise. \<open>Unmodelled\<close> is not an exception: it marks a template
  that uses a part of the replacement-field syntax of \<open>str.format\<close> which the embedding
  does not cover (see \<open>format_field\<close>).
\<close>

datatype py_error =
    KeyError pystr
  | ValueError
  | IndexError
  | StopIteration
  | FileExistsError
  | IsADirectoryError
  | UnicodeEncodeError

datatype 'a result = Return 'a | Raise py_error | Unmodelled

section \<open>The clock: \<open>datetime.now()\<close>, \<open>replace\<close>, \<open>strftime\<close>, \<open>isoformat\<close>\<close>

record datetime =
  year :: nat
  month :: nat
  day :: nat
  hour :: nat
  minute :: nat
  second :: nat
  microsecond :: nat

definition is_leap :: "nat \<Rightarrow> bool" where
  "is_leap y = (y mod 4 = 0 \<and> (y mod 100 \<noteq> 0 \<or> y mod 400 = 0))"

definition days_in_month :: "nat \<Rightarrow> nat \<Rightarrow> nat" where
  "days_in_month y m =
     (if m = 2 \<and> is_leap y then 29
      else [31, 28, 31, 30, 31, 30, 31, 31, 30, 31, 30, 31] ! (m - 1))"

text \<open>The values a \<open>datetime\<close> object can hold (its constructor checks them).\<close>

definition valid_datetime :: "datetime \<Rightarrow> bool" where
  "valid_datetime d =
     (1 \<le> year d \<and> year d \<le> 9999 \<and> 1 \<le> month d \<and> month d \<le> 12 \<and>
      1 \<le> day d \<and> day d \<le> days_in_month (year d) (month d) \<and>
      hour d < 24 \<and> minute d < 60 \<and> second d < 60 \<and> microsecond d < 1000000)"

definition days_before_year :: "nat \<Rightarrow> nat" where
  "days_before_year yr = (let y = yr - 1 in y * 365 + y div 4 - y div 100 + y div 400)"

definition days_before_month :: "nat \<Rightarrow> nat \<Rightarrow> nat" where
  "days_before_month y m =
     [0, 31, 59, 90, 120, 151, 181, 212, 243, 273, 304, 334] ! (m - 1)
       + (if m > 2 \<and> is_leap y then 1 else 0)"

definition toordinal :: "datetime \<Rightarrow> nat" where
  "toordinal d = days_before_year (year d) + days_before_month (year d) (month d) + day d"

text \<open>\<open>weekday()\<close>: Monday is 0.\<close>

definition weekday :: "datetime \<Rightarrow> nat" where
  "weekday d = (toordinal d + 6) mod 7"

definition day_name :: "nat \<Rightarrow> pystr" where
  "day_name n =
     [u ''Monday'', u ''Tuesday'', u ''Wednesday'', u ''Thursday'', u ''Friday'',
      u ''Saturday'', u ''Sunday''] ! (n mod 7)"

fun dec :: "nat \<Rightarrow> pystr" where
  "dec n = (if n < 10 then [48 + n] else dec (n div 10) @ [48 + n mod 10])"

declare dec.simps [simp del]

text \<open>\<open>%0wd\<close>: decimal, padded with zeros to at least \<open>w\<close> digits.\<close>

definition zpad :: "nat \<Rightarrow> nat \<Rightarrow> pystr" where
  "zpad w n = replicate (w - length (dec n)) 48 @ dec n"

definition hour12 :: "nat \<Rightarrow> nat" where
  "hour12 h = (if h mod 12 = 0 then 12 else h mod 12)"

definition am_pm :: "nat \<Rightarrow> pystr" where
  "am_pm h = (if h < 12 then u ''AM'' else u ''PM'')"

text \<open>
  One conversion of \<open>strftime\<close>, in the C locale (the program never sets another). The code
  uses \<open>%A\<close>, \<open>%I\<close>, \<open>%M\<close>, \<open>%p\<close>, \<open>%Y\<close>, \<open>%m\<close> and \<open>%d\<close>; any other character after
  \<open>%\<close> is left as it stands.
\<close>

definition directive :: "nat \<Rightarrow> datetime \<Rightarrow> pystr" where
  "directive c d =
     (if c = of_char CHR ''A'' then day_name (weekday d)
      else if c = of_char CHR ''I'' then zpad 2 (hour12 (hour d))
      else if c = of_char CHR ''M'' then zpad 2 (minute d)
      else if c = of_char CHR ''p'' then am_pm (hour d)
      else if c = of_char CHR ''Y'' then zpad 4 (year d)
      else if c = of_char CHR ''m'' then zpad 2 (month d)
      else if c = of_char CHR ''d'' then zpad 2 (day d)
      else [of_char CHR ''%'', c])"

fun strftime_chars :: "pystr \<Rightarrow> datetime \<Rightarrow> pystr" where
  "strftime_chars [] d = []"
| "strftime_chars [c] d = [c]"
| "strftime_chars (c # e # cs) d =
     (if c = of_char CHR ''%'' then directive e d @ strftime_chars cs d
      else c # strftime_chars (e # cs) d)"

definition strftime :: "datetime \<Rightarrow> string \<Rightarrow> pystr" where
  "strftime d fmt = strftime_chars (u fmt) d"

text \<open>\<open>isoformat()\<close>: the microseconds are printed only when they are not zero.\<close>

definition isoformat :: "datetime \<Rightarrow> pystr" where
  "isoformat d =
     zpad 4 (year d) @ u ''-'' @ zpad 2 (month d) @ u ''-'' @ zpad 2 (day d) @ u ''T'' @
     zpad 2 (hour d) @ u '':'' @ zpad 2 (minute d) @ u '':'' @ zpad 2 (second d) @
     (if microsecond d = 0 then [] else u ''.'' @ zpad 6 (microsecond d))"

section \<open>The request and the context builder\<close>

record excuse_request =
  category :: pystr
  audience :: pystr
  tone :: pystr
  specificity :: int
  req_length :: pystr
  custom_context :: "pystr option"
  seed :: "int option"
  persist_history :: bool
  persist_dir :: "pystr option"

type_synonym context_dict = "pystr \<rightharpoonup> pystr"

definition build_context :: "excuse_request \<Rightarrow> datetime \<Rightarrow> context_dict" where
  "build_context request now =
     (let default_action = u ''complete the task'';
          default_deliverable = u ''the deliverable'';
          default_event = u ''the event'';
          (timeframe, new_time) =
            (if specificity request \<ge> 7
             then (strftime now ''%A %I:%M %p'',
                   strftime (now\<lparr>minute := (minute now div 15) * 15\<rparr>) ''%A %I:%M %p'')
             else if specificity request \<ge> 4
             then (strftime now ''%A'',
                   strftime (now\<lparr>hour := (hour now + 3) mod 24\<rparr>) ''%A %I %p'')
             else (u ''today'', u ''tomorrow''));
          context = [u ''action'' \<mapsto> default_action,
                     u ''deliverable'' \<mapsto> default_deliverable,
                     u ''event'' \<mapsto> default_event,
                     u ''timeframe'' \<mapsto> timeframe,
                     u ''new_time'' \<mapsto> new_time]
      in case custom_context request of
           None \<Rightarrow> context
         | Some text \<Rightarrow>
             if text = [] then context
             else if length text < 120 \<and> of_char CHR '','' \<notin> set text
                       \<and> of_char CHR '' '' \<in> set text
             then context(u ''deliverable'' \<mapsto> text)
             else context(u ''notes'' \<mapsto> text))"

text \<open>The five keys that are always set.\<close>

definition default_keys :: "pystr set" where
  "default_keys = {u ''action'', u ''deliverable'', u ''event'', u ''timeframe'', u ''new_time''}"

section \<open>The random source\<close>

text \<open>
  \<open>random.Random\<close> is the standard library's generator, not code of this program: it is a
  parameter. \<open>rseed\<close> is the state after \<open>seed(n)\<close>; \<open>rbelow r n\<close> is the draw of
  \<open>_randbelow(n)\<close> in state \<open>r\<close> and the state after it.
\<close>

record 'r random_ops =
  rseed :: "int \<Rightarrow> 'r"
  rbelow :: "'r \<Rightarrow> nat \<Rightarrow> nat \<times> 'r"

text \<open>The library's contract for \<open>_randbelow\<close>: a draw below \<open>n\<close>.\<close>

definition rng_ok :: "'r random_ops \<Rightarrow> bool" where
  "rng_ok ops = (\<forall>r n. 0 < n \<longrightarrow> fst (rbelow ops r n) < n)"

text \<open>\<open>random.choice(seq)\<close>: \<open>seq[_randbelow(len(seq))]\<close>, IndexError on an empty sequence.\<close>

definition choice :: "'r random_ops \<Rightarrow> 'r \<Rightarrow> 'a list \<Rightarrow> 'a result \<times> 'r" where
  "choice ops r seq =
     (if seq = [] then (Raise IndexError, r)
      else let (i, r') = rbelow ops r (length seq)
           in if i < length seq then (Return (seq ! i), r') else (Raise IndexError, r'))"

section \<open>The template catalog and the selector\<close>

text \<open>A \<open>dict\<close> keeps its keys in insertion order: an association list with distinct keys.\<close>

type_synonym catalog = "(pystr \<times> (pystr \<times> pystr list) list) list"

record 'r generator =
  random :: 'r
  templates :: catalog

definition em_dash :: pystr where
  "em_dash = [8212]"

definition load_templates :: catalog where
  "load_templates =
    [(u ''General'',
       [(u ''Professional'',
          [u ''Sorry for the short notice. Something unexpected came up, so I can't {action} by {timeframe}. I'll share a simple plan and new time.'',
           u ''Apologies'' @ em_dash @ u ''an issue popped up and needs my attention. I'll update on {deliverable} by {new_time}.'']),
        (u ''Casual'',
          [u ''Sorry'' @ em_dash @ u ''something came up, so I can't {action} today. Can we do {new_time}?'',
           u ''Hey, quick heads-up: I'm tied up last minute. Can we move {action} to {new_time}?'']),
        (u ''Sincere'',
          [u ''Thanks for understanding. A personal thing came up, so I can't {action} as planned. I'll follow up by {new_time}.'']),
        (u ''Brief'',
          [u ''Sorry'' @ em_dash @ u ''unexpected issue. Can't {action} by {timeframe}. Update by {new_time}.'']),
        (u ''Light-hearted'',
          [u ''Looks like I double-booked myself. Can we move {action} to {new_time}?''])]),
     (u ''Work Deadline'',
       [(u ''Professional'',
          [u ''I hit a blocker on {deliverable}. I won't make today's deadline. I'll send a simple plan and new ETA by {new_time}.'']),
        (u ''Sincere'',
          [u ''I'm sorry'' @ em_dash @ u ''something urgent slowed down {deliverable}. I'll focus on it and share a new time by {new_time}.'']),
        (u ''Brief'',
          [u ''Delay on {deliverable} due to a blocker. New ETA {new_time}.''])]),
     (u ''School Assignment'',
       [(u ''Professional'',
          [u ''I ran into an issue and need a short extension for {deliverable}. I can submit by {new_time} if that's okay.'']),
        (u ''Sincere'',
          [u ''A personal situation came up and I couldn't finish {deliverable}. May I submit by {new_time}?''])]),
     (u ''Social Event'',
       [(u ''Casual'',
          [u ''I'm really sorry'' @ em_dash @ u ''I can't make it to {event} tonight. Can we catch up this weekend?'']),
        (u ''Light-hearted'',
          [u ''My day did a plot twist. I have to miss {event}. Rain check for {new_time}?''])]),
     (u ''Appointment'',
       [(u ''Professional'',
          [u ''I need to reschedule today's appointment due to a conflict. Could we move it to {new_time}?''])]),
     (u ''Travel/Commute'',
       [(u ''Professional'',
          [u ''Travel delays are slowing me down. I should be there by {new_time}. Sorry for the hassle.'']),
        (u ''Brief'',
          [u ''Running late due to traffic. ETA {new_time}.''])])]"

text \<open>\<open>ExcuseGenerator()\<close>: a generator seeded by the system (any state \<open>r0\<close>).\<close>

definition new_generator :: "'r \<Rightarrow> 'r generator" where
  "new_generator r0 = \<lparr>random = r0, templates = load_templates\<rparr>"

text \<open>
  \<open>_choose_template\<close>. \<open>categories[chosen_category]\<close> raises KeyError when the catalog has
  no \<open>General\<close> entry, \<open>next(iter(tones))\<close> raises StopIteration on an empty dict.
\<close>

definition choose_template ::
  "'r random_ops \<Rightarrow> 'r generator \<Rightarrow> pystr \<Rightarrow> pystr \<Rightarrow> pystr result \<times> 'r generator" where
  "choose_template ops self cat tn =
     (let categories = templates self;
          chosen_category = (if cat \<in> fst ` set categories then cat else u ''General'')
      in case map_of categories chosen_category of
           None \<Rightarrow> (Raise (KeyError chosen_category), self)
         | Some tones \<Rightarrow>
             (case (if tn \<in> fst ` set tones then Return tn
                    else (case tones of
                            [] \<Rightarrow> Raise StopIteration
                          | (first_tone, _) # _ \<Rightarrow> Return first_tone)) of
                Raise e \<Rightarrow> (Raise e, self)
              | Unmodelled \<Rightarrow> (Unmodelled, self)
              | Return chosen_tone \<Rightarrow>
                  (case map_of tones chosen_tone of
                     None \<Rightarrow> (Raise (KeyError chosen_tone), self)
                   | Some ts \<Rightarrow>
                       (let (t, r') = choice ops (random self) ts
                        in (t, self\<lparr>random := r'\<rparr>)))))"

section \<open>The renderer: \<open>template.format(**context)\<close>\<close>

text \<open>
  \<open>str.format\<close> reads the template from left to right: literal text, the escapes
  \<open>{{\<close> and \<open>}}\<close>, and replacement fields \<open>{name}\<close>. A lone \<open>}\<close>, a \<open>{\<close> inside a field
  name and a field that is not closed raise ValueError. Each field is looked up when it is
  reached, so the first failure from the left is the one raised.

  Covered: fields that are a plain name. A field with a conversion (\<open>!r\<close>), a format
  specification (\<open>:>10\<close>), an index (\<open>[0]\<close>) or an attribute (\<open>.upper\<close>) is \<open>Unmodelled\<close>.
\<close>

abbreviation lbrace :: nat where "lbrace \<equiv> of_char CHR ''{''"
abbreviation rbrace :: nat where "rbrace \<equiv> of_char CHR ''}''"

text \<open>The field name up to its closing brace, and the text after the brace.\<close>

fun take_field :: "pystr \<Rightarrow> (pystr \<times> pystr) result" where
  "take_field [] = Raise ValueError"
| "take_field (c # cs) =
     (if c = lbrace then Raise ValueError
      else if c = rbrace then Return ([], cs)
      else if c = of_char CHR ''['' \<or> c = of_char CHR ''!'' \<or> c = of_char CHR '':''
      then Unmodelled
      else (case take_field cs of
              Return (name, rest) \<Rightarrow> Return (c # name, rest)
            | Raise e \<Rightarrow> Raise e
            | Unmodelled \<Rightarrow> Unmodelled))"

definition ascii_digit :: "nat \<Rightarrow> bool" where
  "ascii_digit c = (48 \<le> c \<and> c \<le> 57)"

text \<open>
  The value of one field. \<open>format(**context)\<close> passes no positional argument, so an empty
  name (automatic numbering) and a number raise IndexError. A name is a number when all
  its characters are decimal digits; one with an ASCII character that is not a digit is a
  key of the context. Long numbers and names of non-ASCII characters only (which may be
  digits of another script) are left out.
\<close>

definition format_field :: "pystr \<Rightarrow> context_dict \<Rightarrow> pystr result" where
  "format_field name context =
     (if name = [] then Raise IndexError
      else if of_char CHR ''.'' \<in> set name then Unmodelled
      else if list_ex (\<lambda>c. c < 128 \<and> \<not> ascii_digit c) name
      then (case context name of None \<Rightarrow> Raise (KeyError name) | Some v \<Rightarrow> Return v)
      else if list_all ascii_digit name \<and> length name \<le> 9 then Raise IndexError
      else Unmodelled)"

definition prepend :: "pystr \<Rightarrow> pystr result \<Rightarrow> pystr result" where
  "prepend s r = (case r of Return t \<Rightarrow> Return (s @ t) | Raise e \<Rightarrow> Raise e
                  | Unmodelled \<Rightarrow> Unmodelled)"

function format_str :: "pystr \<Rightarrow> context_dict \<Rightarrow> pystr result" where
  "format_str [] context = Return []"
| "format_str (c # cs) context =
     (if c = lbrace then
        (case cs of
           [] \<Rightarrow> Raise ValueError
         | d # ds \<Rightarrow>
             if d = lbrace then prepend [lbrace] (format_str ds context)
             else (case take_field cs of
                     Raise e \<Rightarrow> Raise e
                   | Unmodelled \<Rightarrow> Unmodelled
                   | Return (name, rest) \<Rightarrow>
                       (case format_field name context of
                          Raise e \<Rightarrow> Raise e
                        | Unmodelled \<Rightarrow> Unmodelled
                        | Return v \<Rightarrow> prepend v (format_str rest context))))
      else if c = rbrace then
        (case cs of
           [] \<Rightarrow> Raise ValueError
         | d # ds \<Rightarrow>
             if d = rbrace then prepend [rbrace] (format_str ds context)
             else Raise ValueError)
      else prepend [c] (format_str cs context))"
  by pat_completeness auto
termination
proof (relation "measure (\<lambda>(t, context). length t)")
  have shorter: "length rest < length cs" if "take_field cs = Return (name, rest)"
    for cs name rest
    using that by (induction cs arbitrary: name rest) (auto split: if_splits result.splits)
  fix c d :: nat and cs ds name rest v :: pystr and ctx :: context_dict
    and x :: "pystr \<times> pystr"
  assume "cs = d # ds" "take_field cs = Return x" "(name, rest) = x"
  then have "length rest < length cs"
    using shorter [of cs name rest] by simp
  then show "((rest, ctx), c # cs, ctx) \<in> measure (\<lambda>(t, context). length t)"
    by simp
qed auto

section \<open>The length adjuster\<close>

text \<open>\<open>str.isspace\<close> of one character: the code points \<open>strip()\<close> removes.\<close>

definition is_space :: "nat \<Rightarrow> bool" where
  "is_space c =
     ((9 \<le> c \<and> c \<le> 13) \<or> (28 \<le> c \<and> c \<le> 32) \<or> c = 133 \<or> c = 160 \<or> c = 5760 \<or>
      (8192 \<le> c \<and> c \<le> 8202) \<or> c = 8232 \<or> c = 8233 \<or> c = 8239 \<or> c = 8287 \<or>
      c = 12288)"

definition strip :: "pystr \<Rightarrow> pystr" where
  "strip s = rev (dropWhile is_space (rev (dropWhile is_space s)))"

text \<open>
  \<open>text.split(sep)[0]\<close>: the text before the first occurrence of \<open>sep\<close>, all of it when
  \<open>sep\<close> does not occur.
\<close>

fun before_first :: "pystr \<Rightarrow> pystr \<Rightarrow> pystr" where
  "before_first sep [] = []"
| "before_first sep (c # cs) =
     (if take (length sep) (c # cs) = sep then [] else c # before_first sep cs)"

definition addons :: "pystr list" where
  "addons =
     [u '' Thank you for your patience.'',
      u '' I appreciate your understanding and will keep you informed.'',
      u '' Please let me know if a different time works better.'']"

definition vary ::
  "'r random_ops \<Rightarrow> 'r generator \<Rightarrow> pystr \<Rightarrow> excuse_request \<Rightarrow> pystr result \<times> 'r generator" where
  "vary ops self text request =
     (if req_length request = u ''Short'' then
        (if length text > 140
         then (Return (strip (before_first (u ''. '') text @ u ''.'')), self)
         else (Return (strip text), self))
      else if req_length request = u ''Long'' then
        (case choice ops (random self) addons of
           (Return a, r') \<Rightarrow> (Return (strip (text @ a)), self\<lparr>random := r'\<rparr>)
         | (Raise e, r') \<Rightarrow> (Raise e, self\<lparr>random := r'\<rparr>)
         | (Unmodelled, r') \<Rightarrow> (Unmodelled, self\<lparr>random := r'\<rparr>))
      else (Return (strip text), self))"

section \<open>The generator\<close>

definition reseed :: "'r random_ops \<Rightarrow> 'r generator \<Rightarrow> int option \<Rightarrow> 'r generator" where
  "reseed ops self s = (case s of None \<Rightarrow> self | Some n \<Rightarrow> self\<lparr>random := rseed ops n\<rparr>)"

text \<open>\<open>generate\<close>: the KeyError of the renderer is caught, and only that one.\<close>

definition generate ::
  "'r random_ops \<Rightarrow> 'r generator \<Rightarrow> excuse_request \<Rightarrow> datetime \<Rightarrow> pystr result \<times> 'r generator"
  where
  "generate ops self request now =
     (let self1 = reseed ops self (seed request)
      in case choose_template ops self1 (category request) (tone request) of
           (Raise e, self2) \<Rightarrow> (Raise e, self2)
         | (Unmodelled, self2) \<Rightarrow> (Unmodelled, self2)
         | (Return template, self2) \<Rightarrow>
             (let context = build_context request now
              in case (case format_str template context of
                         Raise (KeyError k) \<Rightarrow> Return template
                       | r \<Rightarrow> r) of
                   Raise e \<Rightarrow> (Raise e, self2)
                 | Unmodelled \<Rightarrow> (Unmodelled, self2)
                 | Return text \<Rightarrow> vary ops self2 text request))"

text \<open>\<open>rephrase\<close>: seeded with \<open>seed + 1\<close>; no \<open>try\<close> around the renderer.\<close>

definition rephrase ::
  "'r random_ops \<Rightarrow> 'r generator \<Rightarrow> excuse_request \<Rightarrow> pystr \<Rightarrow> datetime
     \<Rightarrow> pystr result \<times> 'r generator" where
  "rephrase ops self request base_text now =
     (let self1 = reseed ops self (map_option (\<lambda>s. s + 1) (seed request))
      in case choose_template ops self1 (category request) (tone request) of
           (Raise e, self2) \<Rightarrow> (Raise e, self2)
         | (Unmodelled, self2) \<Rightarrow> (Unmodelled, self2)
         | (Return template, self2) \<Rightarrow>
             (let context = build_context request now
              in case format_str template context of
                   Raise e \<Rightarrow> (Raise e, self2)
                 | Unmodelled \<Rightarrow> (Unmodelled, self2)
                 | Return text \<Rightarrow> vary ops self2 text request))"

section \<open>Persistence\<close>

text \<open>
  The file system, as far as \<open>persist\<close> touches it: paths relative to the working
  directory, as lists of components, and what is found there. A text file holds code
  points; it is written as UTF-8, which has no encoding for a surrogate.
\<close>

datatype node = Dir | File pystr

type_synonym path = "pystr list"
type_synonym filesystem = "path \<rightharpoonup> node"

text \<open>\<open>json.dumps(s, ensure_ascii=False)\<close> of a string.\<close>

definition hex_digit :: "nat \<Rightarrow> nat" where
  "hex_digit n = (if n < 10 then 48 + n else 87 + n)"

definition json_escape :: "nat \<Rightarrow> pystr" where
  "json_escape c =
     (if c = 34 then [92, 34]
      else if c = 92 then [92, 92]
      else if c = 10 then [92, of_char CHR ''n'']
      else if c = 13 then [92, of_char CHR ''r'']
      else if c = 9 then [92, of_char CHR ''t'']
      else if c = 8 then [92, of_char CHR ''b'']
      else if c = 12 then [92, of_char CHR ''f'']
      else if c < 32 then [92, of_char CHR ''u'', 48, 48, hex_digit (c div 16), hex_digit (c mod 16)]
      else [c])"

definition json_string :: "pystr \<Rightarrow> pystr" where
  "json_string s = [34] @ concat (map json_escape s) @ [34]"

text \<open>\<open>json.dumps({"timestamp": ts, "text": text}, ensure_ascii=False)\<close>.\<close>

definition json_record :: "pystr \<Rightarrow> pystr \<Rightarrow> pystr" where
  "json_record ts text =
     u ''{'' @ json_string (u ''timestamp'') @ u '': '' @ json_string ts @ u '', '' @
     json_string (u ''text'') @ u '': '' @ json_string text @ u ''}''"

definition surrogate :: "nat \<Rightarrow> bool" where
  "surrogate c = (55296 \<le> c \<and> c \<le> 57343)"

text \<open>
  \<open>persist\<close>. The clock is read twice: \<open>now1\<close> names the file, \<open>now2\<close> is the time stamp.
  The directory is the constant \<open>.history\<close>.
\<close>

definition persist ::
  "filesystem \<Rightarrow> datetime \<Rightarrow> datetime \<Rightarrow> pystr \<Rightarrow> unit result \<times> filesystem" where
  "persist fs now1 now2 text =
     (let persist_dir = [u ''.history'']
      in case fs persist_dir of
           Some (File _) \<Rightarrow> (Raise FileExistsError, fs)
         | _ \<Rightarrow>
             (let fs1 = fs(persist_dir \<mapsto> Dir);
                  file = persist_dir @ [u ''history_'' @ strftime now1 ''%Y%m%d'' @ u ''.jsonl''];
                  line = json_record (isoformat now2) text @ [10]
              in case fs1 file of
                   Some Dir \<Rightarrow> (Raise IsADirectoryError, fs1)
                 | opened \<Rightarrow>
                     (let old = (case opened of Some (File content) \<Rightarrow> content | _ \<Rightarrow> [])
                      in if list_ex surrogate line
                         then (Raise UnicodeEncodeError, fs1(file \<mapsto> File old))
                         else (Return (), fs1(file \<mapsto> File (old @ line))))))"

text \<open>
  The caller of \<open>persist\<close> in \<open>app.py\<close> (the Generate button): the request carries the
  folder the user entered, \<open>persist\<close> is called with the text alone.
\<close>

definition generate_clicked ::
  "'r random_ops \<Rightarrow> 'r generator \<Rightarrow> filesystem \<Rightarrow> excuse_request \<Rightarrow> datetime \<Rightarrow> datetime
     \<Rightarrow> datetime \<Rightarrow> pystr result \<times> 'r generator \<times> filesystem" where
  "generate_clicked ops generator fs request now now1 now2 =
     (case generate ops generator request now of
        (Return res, generator') \<Rightarrow>
          if persist_history request
          then (case persist fs now1 now2 res of
                  (Return _, fs') \<Rightarrow> (Return res, generator', fs')
                | (Raise e, fs') \<Rightarrow> (Raise e, generator', fs')
                | (Unmodelled, fs') \<Rightarrow> (Unmodelled, generator', fs'))
          else (Return res, generator', fs)
      | (r, generator') \<Rightarrow> (r, generator', fs))"

section \<open>The catalog lookup as the specification words it\<close>

text \<open>
  The specification's \<open>lookup(category, tone)\<close>: an absent category is replaced by
  \<open>General\<close>, an absent tone by the first tone defined for the resolved category, in
  insertion order. These definitions follow the specification, not the code; the theorems
  compare \<open>choose_template\<close> with them.
\<close>

definition resolved_category :: "catalog \<Rightarrow> pystr \<Rightarrow> pystr" where
  "resolved_category c cat = (if cat \<in> fst ` set c then cat else u ''General'')"

definition resolved_tone :: "(pystr \<times> pystr list) list \<Rightarrow> pystr \<Rightarrow> pystr option" where
  "resolved_tone tones tn =
     (if tn \<in> fst ` set tones then Some tn
      else (case tones of [] \<Rightarrow> None | (first_tone, _) # _ \<Rightarrow> Some first_tone))"

definition spec_lookup :: "catalog \<Rightarrow> pystr \<Rightarrow> pystr \<Rightarrow> pystr list option" where
  "spec_lookup c cat tn =
     (case map_of c (resolved_category c cat) of
        None \<Rightarrow> None
      | Some tones \<Rightarrow>
          (case resolved_tone tones tn of None \<Rightarrow> None | Some t \<Rightarrow> map_of tones t))"

text \<open>
  A well-formed catalog: it has a \<open>General\<close> entry, every category defines a tone and
  every tone a template.
\<close>

definition catalog_ok :: "catalog \<Rightarrow> bool" where
  "catalog_ok c =
     (u ''General'' \<in> fst ` set c \<and>
      list_all (\<lambda>(cat, tones). tones \<noteq> [] \<and> list_all (\<lambda>(tn, ts). ts \<noteq> []) tones) c)"

text \<open>All the templates of a catalog.\<close>

definition all_templates :: "catalog \<Rightarrow> pystr list" where
  "all_templates c = concat (map snd (concat (map snd c)))"

text \<open>
  The first-sentence truncation in the words of the specification: the text up to the
  first \<open>. \<close>, and a full stop.
\<close>

definition first_sentence :: "pystr \<Rightarrow> pystr" where
  "first_sentence t = before_first (u ''. '') t @ u ''.''"

section \<open>A stand-in random source for evaluating examples\<close>

text \<open>A counter: \<open>seed(n)\<close> sets it to \<open>|n|\<close>, a draw below \<open>n\<close> is the counter modulo \<open>n\<close>.\<close>

definition counter_ops :: "nat random_ops" where
  "counter_ops = \<lparr>rseed = (\<lambda>s. nat \<bar>s\<bar>), rbelow = (\<lambda>r n. (r mod n, Suc r))\<rparr>"

section \<open>Example inputs\<close>

text \<open>Monday, 1 January 2024, 22:47:05.\<close>

definition monday_night :: datetime where
  "monday_night = \<lparr>year = 2024, month = 1, day = 1, hour = 22, minute = 47, second = 5, microsecond = 0\<rparr>"

definition sample_request :: excuse_request where
  "sample_request = \<lparr>category = u ''Work Deadline'', audience = u ''Manager'', tone = u ''Professional'',
     specificity = 8, req_length = u ''Short'', custom_context = None, seed = Some 42,
     persist_history = False, persist_dir = None\<rparr>"

text \<open>A request for the category with two templates, seed 0.\<close>

definition general_request :: excuse_request where
  "general_request = \<lparr>category = u ''General'', audience = u ''Friend'', tone = u ''Professional'',
     specificity = 2, req_length = u ''Medium'', custom_context = None, seed = Some 0,
     persist_history = False, persist_dir = None\<rparr>"

text \<open>A generator whose catalog holds one template, which names \<open>notes\<close>.\<close>

definition extended_generator :: "nat generator" where
  "extended_generator =
     \<lparr>random = 0,
      templates = [(u ''General'', [(u ''Professional'', [u ''Details: {notes}.''])])]\<rparr>"

text \<open>A request that asks for the history to be saved in a folder of its own.\<close>

definition folder_request :: excuse_request where
  "folder_request = \<lparr>category = u ''General'', audience = u ''Friend'', tone = u ''Professional'',
     specificity = 2, req_length = u ''Medium'', custom_context = Some [], seed = Some 2,
     persist_history = True, persist_dir = Some (u ''/data/excuses'')\<rparr>"

text \<open>Two rendered texts, of 60 and of 145 characters.\<close>

definition brief_text :: pystr where
  "brief_text = u ''Delay on the deliverable due to a blocker. New ETA tomorrow.''"

definition long_text :: pystr where
  "long_text = u ''Sorry for the short notice. Something unexpected came up, so I can't complete the task by Monday 10:47 PM. I'll share a simple plan and new time.''"

section \<open>The context builder: time bands\<close>

lemma strftime_full:
  "strftime d ''%A %I:%M %p'' =
     day_name (weekday d) @ u '' '' @ zpad 2 (hour12 (hour d)) @ u '':'' @ zpad 2 (minute d) @
     u '' '' @ am_pm (hour d)"
  by (simp add: strftime_def u_def directive_def)

lemma strftime_day: "strftime d ''%A'' = day_name (weekday d)"
  by (simp add: strftime_def u_def directive_def)

lemma strftime_hour:
  "strftime d ''%A %I %p'' =
     day_name (weekday d) @ u '' '' @ zpad 2 (hour12 (hour d)) @ u '' '' @ am_pm (hour d)"
  by (simp add: strftime_def u_def directive_def)

lemma weekday_replace_minute [simp]: "weekday (d\<lparr>minute := m\<rparr>) = weekday d"
  by (simp add: weekday_def toordinal_def)

lemma weekday_replace_hour [simp]: "weekday (d\<lparr>hour := h\<rparr>) = weekday d"
  by (simp add: weekday_def toordinal_def)

lemma key_distinct [simp]:
  "u ''action'' \<noteq> u ''deliverable''" "u ''action'' \<noteq> u ''event''" "u ''action'' \<noteq> u ''timeframe''" "u ''action'' \<noteq> u ''new_time''" "u ''action'' \<noteq> u ''notes''"
  "u ''deliverable'' \<noteq> u ''action''" "u ''deliverable'' \<noteq> u ''event''" "u ''deliverable'' \<noteq> u ''timeframe''" "u ''deliverable'' \<noteq> u ''new_time''" "u ''deliverable'' \<noteq> u ''notes''"
  "u ''event'' \<noteq> u ''action''" "u ''event'' \<noteq> u ''deliverable''" "u ''event'' \<noteq> u ''timeframe''" "u ''event'' \<noteq> u ''new_time''" "u ''event'' \<noteq> u ''notes''"
  "u ''timeframe'' \<noteq> u ''action''" "u ''timeframe'' \<noteq> u ''deliverable''" "u ''timeframe'' \<noteq> u ''event''" "u ''timeframe'' \<noteq> u ''new_time''" "u ''timeframe'' \<noteq> u ''notes''"
  "u ''new_time'' \<noteq> u ''action''" "u ''new_time'' \<noteq> u ''deliverable''" "u ''new_time'' \<noteq> u ''event''" "u ''new_time'' \<noteq> u ''timeframe''" "u ''new_time'' \<noteq> u ''notes''"
  "u ''notes'' \<noteq> u ''action''" "u ''notes'' \<noteq> u ''deliverable''" "u ''notes'' \<noteq> u ''event''" "u ''notes'' \<noteq> u ''timeframe''" "u ''notes'' \<noteq> u ''new_time''"
  by (simp_all add: u_def)

lemma build_context_timeframe:
  "build_context request now (u ''timeframe'') =
     Some (if specificity request \<ge> 7 then strftime now ''%A %I:%M %p''
           else if specificity request \<ge> 4 then strftime now ''%A'' else u ''today'')"
  by (simp add: build_context_def Let_def split: option.split)

lemma build_context_new_time:
  "build_context request now (u ''new_time'') =
     Some (if specificity request \<ge> 7
           then strftime (now\<lparr>minute := (minute now div 15) * 15\<rparr>) ''%A %I:%M %p''
           else if specificity request \<ge> 4
           then strftime (now\<lparr>hour := (hour now + 3) mod 24\<rparr>) ''%A %I %p''
           else u ''tomorrow'')"
  by (simp add: build_context_def Let_def split: option.split)

text \<open>
  Claim C7. The context builder sets \<open>timeframe\<close> and \<open>new_time\<close> by specificity band.
  From 7 up: the weekday with the 12-hour time, and for \<open>new_time\<close> the same with the
  minutes rounded down to a multiple of 15. From 4 to 6: the weekday alone, and the weekday
  with the hour moved on by 3 modulo 24, without minutes. Below 4: the literals
  \<open>today\<close> and \<open>tomorrow\<close>.
\<close>

theorem build_context_time_bands:
  "(7 \<le> specificity request \<longrightarrow>
      build_context request now (u ''timeframe'') =
        Some (day_name (weekday now) @ u '' '' @ zpad 2 (hour12 (hour now)) @ u '':'' @
              zpad 2 (minute now) @ u '' '' @ am_pm (hour now)) \<and>
      build_context request now (u ''new_time'') =
        Some (day_name (weekday now) @ u '' '' @ zpad 2 (hour12 (hour now)) @ u '':'' @
              zpad 2 (minute now - minute now mod 15) @ u '' '' @ am_pm (hour now))) \<and>
   (4 \<le> specificity request \<and> specificity request < 7 \<longrightarrow>
      build_context request now (u ''timeframe'') = Some (day_name (weekday now)) \<and>
      build_context request now (u ''new_time'') =
        Some (day_name (weekday now) @ u '' '' @ zpad 2 (hour12 ((hour now + 3) mod 24)) @
              u '' '' @ am_pm ((hour now + 3) mod 24))) \<and>
   (specificity request < 4 \<longrightarrow>
      build_context request now (u ''timeframe'') = Some (u ''today'') \<and>
      build_context request now (u ''new_time'') = Some (u ''tomorrow''))"
proof -
  have round: "(minute now div 15) * 15 = minute now - minute now mod 15"
    by (simp add: minus_mod_eq_div_mult)
  show ?thesis
    by (simp add: build_context_timeframe build_context_new_time strftime_full strftime_day
        strftime_hour round)
qed

lemma monday_night_valid: "valid_datetime monday_night"
  by (simp add: valid_datetime_def monday_night_def days_in_month_def)

lemma monday_night_weekday: "weekday monday_night = 0"
  by (simp add: monday_night_def weekday_def toordinal_def days_before_year_def
      days_before_month_def is_leap_def)

lemma monday_night_clock: "hour monday_night = 22" "minute monday_night = 47"
  by (simp_all add: monday_night_def)

lemmas eval_time =
  monday_night_weekday monday_night_clock day_name_def zpad_def dec.simps hour12_def am_pm_def
  u_def

theorem build_context_time_bands_witness:
  "7 \<le> specificity sample_request \<and>
   build_context sample_request monday_night (u ''timeframe'') = Some (u ''Monday 10:47 PM'') \<and>
   build_context sample_request monday_night (u ''new_time'') = Some (u ''Monday 10:45 PM'') \<and>
   4 \<le> specificity (sample_request\<lparr>specificity := 5\<rparr>) \<and>
   specificity (sample_request\<lparr>specificity := 5\<rparr>) < 7 \<and>
   build_context (sample_request\<lparr>specificity := 5\<rparr>) monday_night (u ''timeframe'') =
     Some (u ''Monday'') \<and>
   build_context (sample_request\<lparr>specificity := 5\<rparr>) monday_night (u ''new_time'') =
     Some (u ''Monday 01 AM'') \<and>
   specificity (sample_request\<lparr>specificity := 3\<rparr>) < 4 \<and>
   build_context (sample_request\<lparr>specificity := 3\<rparr>) monday_night (u ''timeframe'') =
     Some (u ''today'') \<and>
   build_context (sample_request\<lparr>specificity := 3\<rparr>) monday_night (u ''new_time'') =
     Some (u ''tomorrow'')"
  using build_context_time_bands [of sample_request monday_night]
    build_context_time_bands [of "sample_request\<lparr>specificity := 5\<rparr>" monday_night]
    build_context_time_bands [of "sample_request\<lparr>specificity := 3\<rparr>" monday_night]
  by (simp add: sample_request_def monday_night_weekday) (simp add: eval_time)


section \<open>The context builder: free text\<close>

lemma build_context_deliverable:
  "build_context request now (u ''deliverable'') =
     Some (case custom_context request of
             None \<Rightarrow> u ''the deliverable''
           | Some text \<Rightarrow>
               if text \<noteq> [] \<and> length text < 120 \<and> of_char CHR '','' \<notin> set text
                    \<and> of_char CHR '' '' \<in> set text
               then text else u ''the deliverable'')"
  by (simp add: build_context_def Let_def case_prod_beta
      split: option.split)

lemma build_context_notes:
  "build_context request now (u ''notes'') =
     (case custom_context request of
        None \<Rightarrow> None
      | Some text \<Rightarrow>
          if text = [] \<or> (length text < 120 \<and> of_char CHR '','' \<notin> set text
                \<and> of_char CHR '' '' \<in> set text)
          then None else Some text)"
  by (simp add: build_context_def Let_def case_prod_beta
      split: option.split)

lemma build_context_dom_default:
  assumes "custom_context request = None \<or> custom_context request = Some []"
  shows "dom (build_context request now) = default_keys"
proof -
  have "\<exists>tf nt. build_context request now =
          [u ''action'' \<mapsto> u ''complete the task'', u ''deliverable'' \<mapsto> u ''the deliverable'',
           u ''event'' \<mapsto> u ''the event'', u ''timeframe'' \<mapsto> tf, u ''new_time'' \<mapsto> nt]"
    using assms unfolding build_context_def Let_def case_prod_beta
    by (elim disjE) (simp_all only: option.case if_True simp_thms, blast+)
  then obtain tf nt where "build_context request now =
          [u ''action'' \<mapsto> u ''complete the task'', u ''deliverable'' \<mapsto> u ''the deliverable'',
           u ''event'' \<mapsto> u ''the event'', u ''timeframe'' \<mapsto> tf, u ''new_time'' \<mapsto> nt]"
    by blast
  then show ?thesis
    unfolding default_keys_def by (simp only: dom_fun_upd dom_empty option.simps if_False) blast
qed

text \<open>
  Claim C8. A non-empty \<open>custom_context\<close> that is shorter than 120 characters, has no
  comma and has a space becomes the value of \<open>deliverable\<close>; any other non-empty one
  leaves \<open>deliverable\<close> at its default and is stored under \<open>notes\<close>. With an empty or
  absent \<open>custom_context\<close> the context has exactly the five default and time keys.
\<close>

theorem build_context_custom_context:
  "(\<forall>text. custom_context request = Some text \<and> text \<noteq> [] \<longrightarrow>
      (length text < 120 \<and> of_char CHR '','' \<notin> set text \<and> of_char CHR '' '' \<in> set text \<longrightarrow>
         build_context request now (u ''deliverable'') = Some text \<and>
         build_context request now (u ''notes'') = None) \<and>
      (\<not> (length text < 120 \<and> of_char CHR '','' \<notin> set text \<and> of_char CHR '' '' \<in> set text) \<longrightarrow>
         build_context request now (u ''deliverable'') = Some (u ''the deliverable'') \<and>
         build_context request now (u ''notes'') = Some text)) \<and>
   (custom_context request = None \<or> custom_context request = Some [] \<longrightarrow>
      dom (build_context request now) = default_keys \<and>
      build_context request now (u ''deliverable'') = Some (u ''the deliverable''))"
proof (intro conjI allI impI)
  fix t
  assume "custom_context request = Some t \<and> t \<noteq> []"
    and "length t < 120 \<and> of_char CHR '','' \<notin> set t \<and> of_char CHR '' '' \<in> set t"
  then show "build_context request now (u ''deliverable'') = Some t"
    and "build_context request now (u ''notes'') = None"
    by (simp_all add: build_context_deliverable build_context_notes)
next
  fix t
  assume "custom_context request = Some t \<and> t \<noteq> []"
    and "\<not> (length t < 120 \<and> of_char CHR '','' \<notin> set t \<and> of_char CHR '' '' \<in> set t)"
  then show "build_context request now (u ''deliverable'') = Some (u ''the deliverable'')"
    and "build_context request now (u ''notes'') = Some t"
    by (auto simp add: build_context_deliverable build_context_notes)
next
  assume h: "custom_context request = None \<or> custom_context request = Some []"
  then show "dom (build_context request now) = default_keys"
    by (rule build_context_dom_default)
  from h show "build_context request now (u ''deliverable'') = Some (u ''the deliverable'')"
    by (auto simp add: build_context_deliverable)
qed

theorem build_context_custom_context_witness:
  "custom_context (sample_request\<lparr>custom_context := Some (u ''client demo'')\<rparr>) =
     Some (u ''client demo'') \<and> u ''client demo'' \<noteq> [] \<and>
   length (u ''client demo'') < 120 \<and> of_char CHR '','' \<notin> set (u ''client demo'') \<and>
   of_char CHR '' '' \<in> set (u ''client demo'') \<and>
   build_context (sample_request\<lparr>custom_context := Some (u ''client demo'')\<rparr>) monday_night
     (u ''deliverable'') = Some (u ''client demo'') \<and>
   custom_context (sample_request\<lparr>custom_context := Some (replicate 200 120)\<rparr>) =
     Some (replicate 200 120) \<and> replicate 200 120 \<noteq> ([] :: pystr) \<and>
   \<not> length (replicate 200 (120 :: nat)) < 120 \<and>
   build_context (sample_request\<lparr>custom_context := Some (replicate 200 120)\<rparr>) monday_night
     (u ''deliverable'') = Some (u ''the deliverable'') \<and>
   build_context (sample_request\<lparr>custom_context := Some (replicate 200 120)\<rparr>) monday_night
     (u ''notes'') = Some (replicate 200 120) \<and>
   custom_context sample_request = None \<and>
   dom (build_context sample_request monday_night) = default_keys"
proof -
  let ?short = "sample_request\<lparr>custom_context := Some (u ''client demo'')\<rparr>"
  let ?long = "sample_request\<lparr>custom_context := Some (replicate 200 120)\<rparr>"
  have s: "custom_context ?short = Some (u ''client demo'') \<and> u ''client demo'' \<noteq> []"
    and s': "length (u ''client demo'') < 120 \<and> of_char CHR '','' \<notin> set (u ''client demo'') \<and>
      of_char CHR '' '' \<in> set (u ''client demo'')"
    by (simp_all add: u_def)
  have l: "custom_context ?long = Some (replicate 200 120) \<and> replicate 200 120 \<noteq> ([] :: pystr)"
    and l': "\<not> length (replicate 200 (120 :: nat)) < 120"
    by simp_all
  have n: "custom_context sample_request = None"
    by (simp add: sample_request_def)
  note build_context_custom_context [of ?short monday_night]
    build_context_custom_context [of ?long monday_night]
    build_context_custom_context [of sample_request monday_night]
  with s s' l l' n show ?thesis
    by blast
qed

section \<open>The shifted hour keeps the date\<close>

lemma weekday_below_7: "weekday d < 7"
  by (simp add: weekday_def)

lemma day_name_next_differs:
  assumes "w < 7"
  shows "take (length (day_name (w + 1))) (day_name w @ rest) \<noteq> day_name (w + 1)"
proof -
  from assms consider "w = 0" | "w = 1" | "w = 2" | "w = 3" | "w = 4" | "w = 5" | "w = 6"
    by linarith
  then show ?thesis
    by cases (simp_all add: day_name_def u_def)
qed

text \<open>
  Claim C10. In the band from 4 to 6 the weekday in \<open>new_time\<close> is the weekday of the
  current day: replacing the hour leaves the date as it is, also when the hour plus 3
  passes midnight (from 21:00 on), where the text is today's weekday with an hour of
  12, 01 or 02 AM and does not start with the name of the next day.
\<close>

theorem new_time_keeps_weekday:
  assumes "4 \<le> specificity request" and "specificity request < 7"
  shows "toordinal (now\<lparr>hour := (hour now + 3) mod 24\<rparr>) = toordinal now \<and>
    (\<exists>rest. build_context request now (u ''new_time'') = Some (day_name (weekday now) @ rest) \<and>
       (21 \<le> hour now \<and> hour now < 24 \<longrightarrow>
          rest = u '' '' @ zpad 2 (hour12 (hour now - 21)) @ u '' AM'' \<and>
          take (length (day_name (weekday now + 1))) (day_name (weekday now) @ rest)
            \<noteq> day_name (weekday now + 1)))"
proof -
  let ?h = "(hour now + 3) mod 24"
  let ?rest = "u '' '' @ zpad 2 (hour12 ?h) @ u '' '' @ am_pm ?h"
  have nt: "build_context request now (u ''new_time'') = Some (day_name (weekday now) @ ?rest)"
    using assms by (simp add: build_context_new_time strftime_hour)
  have wrap: "?rest = u '' '' @ zpad 2 (hour12 (hour now - 21)) @ u '' AM''"
    if "21 \<le> hour now \<and> hour now < 24"
  proof -
    from that have "hour now = 21 \<or> hour now = 22 \<or> hour now = 23"
      by linarith
    then have "?h = hour now - 21" and "hour now - 21 < 12"
      by auto
    then show ?thesis
      by (simp add: am_pm_def u_def)
  qed
  have ord: "toordinal (now\<lparr>hour := ?h\<rparr>) = toordinal now"
    by (simp add: toordinal_def)
  have diff: "take (length (day_name (weekday now + 1))) (day_name (weekday now) @ ?rest)
      \<noteq> day_name (weekday now + 1)"
    by (rule day_name_next_differs [OF weekday_below_7])
  show ?thesis
  proof (intro conjI exI impI)
    show "toordinal (now\<lparr>hour := ?h\<rparr>) = toordinal now"
      by (rule ord)
    show "build_context request now (u ''new_time'') = Some (day_name (weekday now) @ ?rest)"
      by (rule nt)
    show "?rest = u '' '' @ zpad 2 (hour12 (hour now - 21)) @ u '' AM''"
      if "21 \<le> hour now \<and> hour now < 24"
      using that by (rule wrap)
    show "take (length (day_name (weekday now + 1))) (day_name (weekday now) @ ?rest)
      \<noteq> day_name (weekday now + 1)"
      by (rule diff)
  qed
qed

theorem new_time_keeps_weekday_witness:
  "4 \<le> specificity (sample_request\<lparr>specificity := 5\<rparr>) \<and>
   specificity (sample_request\<lparr>specificity := 5\<rparr>) < 7 \<and>
   weekday monday_night = 0 \<and> hour monday_night = 22 \<and>
   build_context (sample_request\<lparr>specificity := 5\<rparr>) monday_night (u ''new_time'') =
     Some (u ''Monday 01 AM'')"
proof -
  have h: "4 \<le> specificity (sample_request\<lparr>specificity := 5\<rparr>)"
    "specificity (sample_request\<lparr>specificity := 5\<rparr>) < 7"
    by simp_all
  have t: "21 \<le> hour monday_night \<and> hour monday_night < 24" "hour monday_night = 22"
    by (simp_all add: monday_night_clock)
  from new_time_keeps_weekday [OF h, of monday_night] t(1)
  have "build_context (sample_request\<lparr>specificity := 5\<rparr>) monday_night (u ''new_time'') =
     Some (day_name (weekday monday_night) @ u '' '' @ zpad 2 (hour12 (hour monday_night - 21))
       @ u '' AM'')"
    by auto
  then have "build_context (sample_request\<lparr>specificity := 5\<rparr>) monday_night (u ''new_time'') =
     Some (u ''Monday 01 AM'')"
    by (simp add: eval_time)
  with h t monday_night_weekday show ?thesis
    by simp
qed

section \<open>The selector\<close>

lemma u_eq_iff [simp]: "u a = u b \<longleftrightarrow> a = b"
proof -
  have "inj (of_char :: char \<Rightarrow> nat)"
    by (rule injI) simp
  then show ?thesis
    by (simp add: u_def inj_map_eq_map)
qed

lemma chosen_tone_resolved:
  "(if tn \<in> fst ` set tones then Return tn
    else (case tones of [] \<Rightarrow> Raise StopIteration | (first_tone, _) # _ \<Rightarrow> Return first_tone)) =
   (case resolved_tone tones tn of None \<Rightarrow> Raise StopIteration | Some t \<Rightarrow> Return t)"
  by (simp add: resolved_tone_def split: list.split prod.split)

lemma choose_template_lookup:
  assumes "spec_lookup (templates self) cat tn = Some ts"
  shows "choose_template ops self cat tn =
     (case choice ops (random self) ts of (t, r') \<Rightarrow> (t, self\<lparr>random := r'\<rparr>))"
proof -
  from assms obtain tones t
    where "map_of (templates self) (resolved_category (templates self) cat) = Some tones"
      and "resolved_tone tones tn = Some t" and "map_of tones t = Some ts"
    by (auto simp add: spec_lookup_def split: option.splits)
  then show ?thesis
    unfolding choose_template_def Let_def chosen_tone_resolved resolved_category_def
    by simp
qed

lemma map_of_key: "k \<in> fst ` set xs \<Longrightarrow> \<exists>v. map_of xs k = Some v \<and> (k, v) \<in> set xs"
  by (induction xs) auto

lemma spec_lookup_nonempty:
  assumes "catalog_ok c"
  shows "\<exists>ts. spec_lookup c cat tn = Some ts \<and> ts \<noteq> []"
proof -
  from assms have "resolved_category c cat \<in> fst ` set c"
    by (simp add: catalog_ok_def resolved_category_def)
  from map_of_key [OF this] obtain tones
    where tones: "map_of c (resolved_category c cat) = Some tones"
      and mem: "(resolved_category c cat, tones) \<in> set c"
    by blast
  from assms have "\<forall>x\<in>set c. snd x \<noteq> [] \<and> list_all (\<lambda>(tn, ts). ts \<noteq> []) (snd x)"
    by (simp add: catalog_ok_def list_all_iff case_prod_beta)
  from bspec [OF this mem] have ne: "tones \<noteq> []"
    and all: "\<forall>y\<in>set tones. snd y \<noteq> []"
    by (simp_all add: list_all_iff case_prod_beta)
  have "\<exists>t. resolved_tone tones tn = Some t \<and> t \<in> fst ` set tones"
  proof (cases "tn \<in> fst ` set tones")
    case True
    then show ?thesis by (simp add: resolved_tone_def)
  next
    case False
    with ne show ?thesis by (cases tones) (simp_all add: resolved_tone_def case_prod_beta)
  qed
  then obtain t where t: "resolved_tone tones tn = Some t" and tin: "t \<in> fst ` set tones"
    by blast
  from map_of_key [OF tin] obtain ts where ts: "map_of tones t = Some ts"
    and tsin: "(t, ts) \<in> set tones"
    by blast
  from bspec [OF all tsin] have "ts \<noteq> []"
    by simp
  with tones t ts show ?thesis
    by (simp add: spec_lookup_def)
qed

lemma load_templates_ok: "catalog_ok load_templates"
  by (simp add: catalog_ok_def load_templates_def)

lemma choice_in_range:
  assumes "rng_ok ops" and "ts \<noteq> []"
  shows "choice ops r ts =
     (Return (ts ! fst (rbelow ops r (length ts))), snd (rbelow ops r (length ts)))"
    and "fst (rbelow ops r (length ts)) < length ts"
proof -
  from assms show "fst (rbelow ops r (length ts)) < length ts"
    by (simp add: rng_ok_def)
  then show "choice ops r ts =
     (Return (ts ! fst (rbelow ops r (length ts))), snd (rbelow ops r (length ts)))"
    using assms(2) by (simp add: choice_def case_prod_beta)
qed


lemma counter_ops_ok: "rng_ok counter_ops"
  by (simp add: rng_ok_def counter_ops_def)

lemma spec_lookup_unknown_category:
  "cat \<notin> fst ` set c \<Longrightarrow> spec_lookup c cat tn = spec_lookup c (u ''General'') tn"
  by (simp add: spec_lookup_def resolved_category_def)

lemma resolved_tone_unknown:
  assumes "tones \<noteq> []" and "tn \<notin> fst ` set tones"
  shows "resolved_tone tones tn = resolved_tone tones (fst (hd tones))"
  using assms by (cases tones) (simp_all add: resolved_tone_def case_prod_beta)

text \<open>
  Claim C6. With the built-in catalog, template selection draws from the list at the
  resolved category (the category if the catalog has it, else \<open>General\<close>) and the
  resolved tone (the tone if the resolved category defines it, else that category's first
  tone): the template returned is the element of that list at the index the random source
  draws below its length. An unknown category behaves as \<open>General\<close> does, an unknown
  tone as the first tone of the resolved category does.
\<close>

theorem choose_template_fallback:
  assumes "templates self = load_templates"
  shows "(\<exists>ts. spec_lookup load_templates cat tn = Some ts \<and>
            choose_template ops self cat tn =
              (case choice ops (random self) ts of (t, r') \<Rightarrow> (t, self\<lparr>random := r'\<rparr>)) \<and>
            (rng_ok ops \<longrightarrow>
               fst (rbelow ops (random self) (length ts)) < length ts \<and>
               fst (choose_template ops self cat tn) =
                 Return (ts ! fst (rbelow ops (random self) (length ts))))) \<and>
         (cat \<notin> fst ` set load_templates \<longrightarrow>
            choose_template ops self cat tn = choose_template ops self (u ''General'') tn) \<and>
         (\<forall>tones. map_of load_templates (resolved_category load_templates cat) = Some tones \<and>
              tn \<notin> fst ` set tones \<longrightarrow>
            choose_template ops self cat tn = choose_template ops self cat (fst (hd tones)))"
proof (intro conjI allI impI)
  obtain ts where ts: "spec_lookup load_templates cat tn = Some ts" and ne: "ts \<noteq> []"
    using spec_lookup_nonempty [OF load_templates_ok] by blast
  have sel: "choose_template ops self cat tn =
      (case choice ops (random self) ts of (t, r') \<Rightarrow> (t, self\<lparr>random := r'\<rparr>))"
    using ts assms by (simp add: choose_template_lookup)
  have drawn: "fst (rbelow ops (random self) (length ts)) < length ts \<and>
      fst (choose_template ops self cat tn) =
        Return (ts ! fst (rbelow ops (random self) (length ts)))" if "rng_ok ops"
    using choice_in_range [OF that ne, of "random self"] sel by simp
  from ts sel drawn
  show "\<exists>ts. spec_lookup load_templates cat tn = Some ts \<and>
            choose_template ops self cat tn =
              (case choice ops (random self) ts of (t, r') \<Rightarrow> (t, self\<lparr>random := r'\<rparr>)) \<and>
            (rng_ok ops \<longrightarrow>
               fst (rbelow ops (random self) (length ts)) < length ts \<and>
               fst (choose_template ops self cat tn) =
                 Return (ts ! fst (rbelow ops (random self) (length ts))))"
    by blast
next
  assume unknown: "cat \<notin> fst ` set load_templates"
  obtain ts where ts: "spec_lookup load_templates (u ''General'') tn = Some ts"
    using spec_lookup_nonempty [OF load_templates_ok] by blast
  with unknown have "spec_lookup load_templates cat tn = Some ts"
    by (simp add: spec_lookup_unknown_category)
  with ts assms show "choose_template ops self cat tn = choose_template ops self (u ''General'') tn"
    by (simp add: choose_template_lookup)
next
  fix tones
  assume h: "map_of load_templates (resolved_category load_templates cat) = Some tones \<and>
    tn \<notin> fst ` set tones"
  obtain ts where ts: "spec_lookup load_templates cat tn = Some ts" and "ts \<noteq> []"
    using spec_lookup_nonempty [OF load_templates_ok] by blast
  from ts h have "tones \<noteq> []"
    by (auto simp add: spec_lookup_def resolved_tone_def split: option.splits)
  with h have "resolved_tone tones tn = resolved_tone tones (fst (hd tones))"
    by (simp add: resolved_tone_unknown)
  with h ts have "spec_lookup load_templates cat (fst (hd tones)) = Some ts"
    by (simp add: spec_lookup_def)
  with ts assms show "choose_template ops self cat tn = choose_template ops self cat (fst (hd tones))"
    by (simp add: choose_template_lookup)
qed

theorem choose_template_fallback_witness:
  "templates (new_generator (3::nat)) = load_templates \<and>
   u ''Bogus'' \<notin> fst ` set load_templates \<and>
   choose_template counter_ops (new_generator 3) (u ''Bogus'') (u ''Casual'') =
     choose_template counter_ops (new_generator 3) (u ''General'') (u ''Casual'') \<and>
   u ''Casual'' \<notin> fst ` set (the (map_of load_templates (u ''Work Deadline''))) \<and>
   choose_template counter_ops (new_generator 3) (u ''Work Deadline'') (u ''Casual'') =
     choose_template counter_ops (new_generator 3) (u ''Work Deadline'') (u ''Professional'') \<and>
   rng_ok counter_ops \<and>
   fst (choose_template counter_ops (new_generator 3) (u ''Bogus'') (u ''Casual'')) =
     Return (u ''Hey, quick heads-up: I'm tied up last minute. Can we move {action} to {new_time}?'')"
proof -
  let ?g = "new_generator (3::nat)"
  let ?tones = "the (map_of load_templates (u ''Work Deadline''))"
  have g: "templates ?g = load_templates"
    by (simp add: new_generator_def)
  have bogus: "u ''Bogus'' \<notin> fst ` set load_templates"
    by (simp add: load_templates_def)
  have wd: "map_of load_templates (resolved_category load_templates (u ''Work Deadline'')) =
      Some ?tones \<and> u ''Casual'' \<notin> fst ` set ?tones"
    and first: "fst (hd ?tones) = u ''Professional''"
    by (simp_all add: load_templates_def resolved_category_def)
  have lk: "spec_lookup load_templates (u ''Bogus'') (u ''Casual'') =
      Some [u ''Sorry'' @ em_dash @ u ''something came up, so I can't {action} today. Can we do {new_time}?'',
            u ''Hey, quick heads-up: I'm tied up last minute. Can we move {action} to {new_time}?'']"
    by (simp add: spec_lookup_def resolved_category_def resolved_tone_def load_templates_def)
  have "length [a, b] = 2" for a b :: pystr
    by simp
  then have draw: "fst (rbelow counter_ops (random ?g) (length [a, b])) = 1" for a b :: pystr
    by (simp only: counter_ops_def new_generator_def random_ops.simps generator.simps fst_conv)
      simp
  note inst = choose_template_fallback [OF g, of "u ''Bogus''" "u ''Casual''" counter_ops]
  from inst bogus have 1: "choose_template counter_ops ?g (u ''Bogus'') (u ''Casual'') =
      choose_template counter_ops ?g (u ''General'') (u ''Casual'')"
    by blast
  from choose_template_fallback [OF g, of "u ''Work Deadline''" "u ''Casual''" counter_ops] wd
  have "choose_template counter_ops ?g (u ''Work Deadline'') (u ''Casual'') =
      choose_template counter_ops ?g (u ''Work Deadline'') (fst (hd ?tones))"
    by blast
  with first have 2: "choose_template counter_ops ?g (u ''Work Deadline'') (u ''Casual'') =
      choose_template counter_ops ?g (u ''Work Deadline'') (u ''Professional'')"
    by simp
  from inst counter_ops_ok obtain ts
    where "spec_lookup load_templates (u ''Bogus'') (u ''Casual'') = Some ts"
      and "fst (choose_template counter_ops ?g (u ''Bogus'') (u ''Casual'')) =
        Return (ts ! fst (rbelow counter_ops (random ?g) (length ts)))"
    by blast
  with lk have 3: "fst (choose_template counter_ops ?g (u ''Bogus'') (u ''Casual'')) =
      Return (u ''Hey, quick heads-up: I'm tied up last minute. Can we move {action} to {new_time}?'')"
    by (simp only: option.inject draw) simp
  from g bogus 1 wd 2 3 counter_ops_ok show ?thesis
    by blast
qed

text \<open>
  Claim C9. Every category of the built-in catalog defines at least one tone and every
  tone at least one template, so for every category and tone string the list that
  template selection draws from is not empty, and the draw returns one of its templates.
\<close>

theorem builtin_templates_nonempty:
  assumes "templates self = load_templates"
  shows "catalog_ok load_templates \<and>
    (\<exists>ts. ts \<noteq> [] \<and>
       choose_template ops self cat tn =
         (case choice ops (random self) ts of (t, r') \<Rightarrow> (t, self\<lparr>random := r'\<rparr>)) \<and>
       (rng_ok ops \<longrightarrow> (\<exists>t\<in>set ts. fst (choose_template ops self cat tn) = Return t)))"
proof -
  obtain ts where ts: "spec_lookup load_templates cat tn = Some ts" and ne: "ts \<noteq> []"
    using spec_lookup_nonempty [OF load_templates_ok] by blast
  have sel: "choose_template ops self cat tn =
      (case choice ops (random self) ts of (t, r') \<Rightarrow> (t, self\<lparr>random := r'\<rparr>))"
    using ts assms by (simp add: choose_template_lookup)
  have "\<exists>t\<in>set ts. fst (choose_template ops self cat tn) = Return t" if "rng_ok ops"
    using choice_in_range [OF that ne, of "random self"] sel by simp
  with ne sel load_templates_ok show ?thesis
    by blast
qed


theorem builtin_templates_nonempty_witness:
  "templates (new_generator (3::nat)) = load_templates \<and> rng_ok counter_ops \<and>
   (\<exists>t. fst (choose_template counter_ops (new_generator 3) (u ''Unknown'') (u ''Unknown'')) =
      Return t)"
  using builtin_templates_nonempty [of "new_generator (3::nat)" counter_ops "u ''Unknown''"
      "u ''Unknown''"] counter_ops_ok
  by (auto simp add: new_generator_def)

section \<open>Seeds: \<open>generate\<close> and \<open>rephrase\<close>\<close>

lemma same_templates_reseeded:
  fixes g1 g2 :: "'r generator"
  shows "templates g1 = templates g2 \<Longrightarrow> g1\<lparr>random := r\<rparr> = g2\<lparr>random := r\<rparr>"
  by (cases g1, cases g2) simp

lemma build_context_ignores_seed [simp]:
  "build_context (request\<lparr>seed := x\<rparr>) now = build_context request now"
  by (simp add: build_context_def)

lemma vary_ignores_seed [simp]:
  "vary ops self text (request\<lparr>seed := x\<rparr>) = vary ops self text request"
  by (simp add: vary_def)

lemma choose_template_keeps_templates:
  "templates (snd (choose_template ops self cat tn)) = templates self"
proof -
  let ?cat = "if cat \<in> fst ` set (templates self) then cat else u ''General''"
  show ?thesis
  proof (cases "map_of (templates self) ?cat")
    case None
    then show ?thesis by (simp add: choose_template_def Let_def)
  next
    case (Some tones)
    let ?tone = "if tn \<in> fst ` set tones then Return tn
                    else (case tones of
                            [] \<Rightarrow> Raise StopIteration
                          | (first_tone, _) # _ \<Rightarrow> Return first_tone)"
    show ?thesis
    proof (cases ?tone)
      case (Return chosen)
      with Some show ?thesis
        by (cases "map_of tones chosen")
          (simp_all add: choose_template_def Let_def case_prod_beta)
    next
      case (Raise e)
      with Some show ?thesis by (simp add: choose_template_def Let_def)
    next
      case Unmodelled
      with Some show ?thesis by (simp add: choose_template_def Let_def)
    qed
  qed
qed

lemma vary_keeps_templates: "templates (snd (vary ops self text request)) = templates self"
proof (cases "choice ops (random self) addons")
  case (Pair a r')
  then show ?thesis
    by (cases a) (simp_all add: vary_def)
qed

lemma generate_keeps_templates:
  "templates (snd (generate ops self request now)) = templates self"
proof -
  let ?self1 = "reseed ops self (seed request)"
  have t1: "templates ?self1 = templates self"
    by (simp add: reseed_def split: option.split)
  obtain r self2 where c: "choose_template ops ?self1 (category request) (tone request) =
      (r, self2)"
    by (cases "choose_template ops ?self1 (category request) (tone request)")
  with choose_template_keeps_templates [of ops ?self1 "category request" "tone request"] t1
  have t2: "templates self2 = templates self"
    by simp
  show ?thesis
  proof (cases r)
    case (Return template)
    let ?text = "case format_str template (build_context request now) of
                   Raise (KeyError k) \<Rightarrow> Return template | r \<Rightarrow> r"
    from Return c t2 show ?thesis
      by (cases ?text) (simp_all add: generate_def Let_def vary_keeps_templates)
  next
    case (Raise e)
    with c t2 show ?thesis by (simp add: generate_def Let_def)
  next
    case Unmodelled
    with c t2 show ?thesis by (simp add: generate_def Let_def)
  qed
qed

text \<open>
  Claim C3. When the request carries a seed, \<open>generate\<close> is a function of the request,
  the clock and the catalog alone: two generators with the same catalog, in whatever
  state their random sources are, choose the same template and return the same result,
  and so does a second call on the generator the first call left behind.
\<close>

theorem generate_deterministic_with_seed:
  fixes g1 g2 :: "'r generator"
  assumes "seed request = Some s" and "templates g1 = templates g2"
  shows "choose_template ops (reseed ops g1 (seed request)) (category request) (tone request) =
      choose_template ops (reseed ops g2 (seed request)) (category request) (tone request) \<and>
    generate ops g1 request now = generate ops g2 request now \<and>
    generate ops (snd (generate ops g1 request now)) request now = generate ops g1 request now"
proof -
  have eq: "reseed ops g (seed request) = reseed ops g' (seed request)"
    if "templates g = templates g'" for g g' :: "'r generator"
    using assms(1) same_templates_reseeded [OF that] by (simp add: reseed_def)
  have gen: "generate ops g request now = generate ops g' request now"
    if "templates g = templates g'" for g g' :: "'r generator"
    unfolding generate_def by (subst eq [OF that]) (rule refl)
  have again: "templates (snd (generate ops g1 request now)) = templates g1"
    by (rule generate_keeps_templates)
  show ?thesis
  proof (intro conjI)
    show "choose_template ops (reseed ops g1 (seed request)) (category request) (tone request) =
      choose_template ops (reseed ops g2 (seed request)) (category request) (tone request)"
      using eq [OF assms(2)] by (rule arg_cong)
    show "generate ops g1 request now = generate ops g2 request now"
      using assms(2) by (rule gen)
    show "generate ops (snd (generate ops g1 request now)) request now =
      generate ops g1 request now"
      using again by (rule gen)
  qed
qed


lemma builtin_templates_render:
  assumes "ctx (u ''action'') = Some a" and "ctx (u ''deliverable'') = Some d"
    and "ctx (u ''event'') = Some e" and "ctx (u ''timeframe'') = Some tf"
    and "ctx (u ''new_time'') = Some nt"
  shows "list_all (\<lambda>t. \<exists>text. format_str t ctx = Return text) (all_templates load_templates)"
  using assms
  by (simp add: all_templates_def load_templates_def em_dash_def u_def format_field_def
      ascii_digit_def prepend_def)


lemma map_of_member: "map_of xs k = Some v \<Longrightarrow> (k, v) \<in> set xs"
  by (rule map_of_SomeD)

lemma choice_member:
  assumes "choice ops r ts = (Return t, r')"
  shows "t \<in> set ts"
proof (cases "ts = []")
  case True
  with assms show ?thesis by (simp add: choice_def)
next
  case False
  with assms show ?thesis
    by (cases "fst (rbelow ops r (length ts)) < length ts")
      (auto simp add: choice_def case_prod_beta)
qed

lemma all_templates_member:
  assumes "(cat, tones) \<in> set c" and "(tn, ts) \<in> set tones" and "t \<in> set ts"
  shows "t \<in> set (all_templates c)"
  using assms by (force simp add: all_templates_def)

lemma choose_template_member:
  assumes "choose_template ops self cat tn = (Return t, self2)"
  shows "t \<in> set (all_templates (templates self))"
proof -
  let ?cat = "if cat \<in> fst ` set (templates self) then cat else u ''General''"
  show ?thesis
  proof (cases "map_of (templates self) ?cat")
    case None
    with assms show ?thesis by (simp add: choose_template_def Let_def)
  next
    case (Some tones)
    let ?tone = "if tn \<in> fst ` set tones then Return tn
                    else (case tones of
                            [] \<Rightarrow> Raise StopIteration
                          | (first_tone, _) # _ \<Rightarrow> Return first_tone)"
    show ?thesis
    proof (cases ?tone)
      case (Return chosen)
      show ?thesis
      proof (cases "map_of tones chosen")
        case None
        with assms Some Return show ?thesis
          by (simp add: choose_template_def Let_def)
      next
        case ts: (Some ts)
        obtain x r' where ch: "choice ops (random self) ts = (x, r')"
          by (cases "choice ops (random self) ts")
        with assms Some Return ts have "x = Return t"
          by (simp add: choose_template_def Let_def)
        with ch have "t \<in> set ts"
          by (simp add: choice_member)
        with map_of_member [OF Some] map_of_member [OF ts] show ?thesis
          by (rule all_templates_member)
      qed
    next
      case (Raise e)
      with assms Some show ?thesis by (simp add: choose_template_def Let_def)
    next
      case Unmodelled
      with assms Some show ?thesis by (simp add: choose_template_def Let_def)
    qed
  qed
qed

lemma build_context_has_keys:
  "\<exists>a d e tf nt.
     build_context request now (u ''action'') = Some a \<and>
     build_context request now (u ''deliverable'') = Some d \<and>
     build_context request now (u ''event'') = Some e \<and>
     build_context request now (u ''timeframe'') = Some tf \<and>
     build_context request now (u ''new_time'') = Some nt"
proof -
  have "build_context request now (u ''action'') = Some (u ''complete the task'')"
    by (simp add: build_context_def Let_def case_prod_beta split: option.split)
  moreover have "build_context request now (u ''event'') = Some (u ''the event'')"
    by (simp add: build_context_def Let_def case_prod_beta split: option.split)
  ultimately show ?thesis
    by (simp add: build_context_deliverable build_context_timeframe build_context_new_time)
qed

lemma builtin_render_returns:
  assumes "t \<in> set (all_templates load_templates)"
  shows "\<exists>text. format_str t (build_context request now) = Return text"
proof -
  obtain a d e tf nt where
    "build_context request now (u ''action'') = Some a"
    "build_context request now (u ''deliverable'') = Some d"
    "build_context request now (u ''event'') = Some e"
    "build_context request now (u ''timeframe'') = Some tf"
    "build_context request now (u ''new_time'') = Some nt"
    using build_context_has_keys by blast
  then have "list_all (\<lambda>t. \<exists>text. format_str t (build_context request now) = Return text)
      (all_templates load_templates)"
    by (rule builtin_templates_render)
  with assms show ?thesis
    by (simp add: list_all_iff)
qed


lemma rephrase_after_choice:
  assumes "choose_template ops (reseed ops self (map_option (\<lambda>s. s + 1) (seed request)))
      (category request) (tone request) = (r, self2)"
  shows "rephrase ops self request base_text now =
     (case r of
        Raise e \<Rightarrow> (Raise e, self2)
      | Unmodelled \<Rightarrow> (Unmodelled, self2)
      | Return template \<Rightarrow>
          (case format_str template (build_context request now) of
             Raise e \<Rightarrow> (Raise e, self2)
           | Unmodelled \<Rightarrow> (Unmodelled, self2)
           | Return text \<Rightarrow> vary ops self2 text request))"
  using assms by (cases r) (simp_all add: rephrase_def Let_def)

lemma generate_after_choice:
  assumes "choose_template ops (reseed ops self (seed request))
      (category request) (tone request) = (r, self2)"
  shows "generate ops self request now =
     (case r of
        Raise e \<Rightarrow> (Raise e, self2)
      | Unmodelled \<Rightarrow> (Unmodelled, self2)
      | Return template \<Rightarrow>
          (case format_str template (build_context request now) of
             Raise (KeyError k) \<Rightarrow> vary ops self2 template request
           | Raise e \<Rightarrow> (Raise e, self2)
           | Unmodelled \<Rightarrow> (Unmodelled, self2)
           | Return text \<Rightarrow> vary ops self2 text request))"
proof (cases r)
  case (Return template)
  with assms show ?thesis
  proof (cases "format_str template (build_context request now)")
    case (Raise e)
    with assms Return show ?thesis
      by (cases e) (simp_all add: generate_def Let_def)
  qed (simp_all add: generate_def Let_def)
qed (use assms in \<open>simp_all add: generate_def Let_def\<close>)

text \<open>
  Claim C4. With seed \<open>s\<close> in the request, \<open>rephrase\<close> seeds the random source with
  \<open>s + 1\<close> and selects the template that \<open>generate\<close> selects for the same request with
  seed \<open>s + 1\<close>. The prior text has no influence, and the result does not depend on
  the state of the random source before the call. The results of the two operations are
  equal, except where the selected template names a placeholder the context lacks (then
  \<open>rephrase\<close> raises the KeyError and \<open>generate\<close> returns that same template
  unsubstituted); with the built-in catalog they are always equal.
\<close>

theorem rephrase_uses_next_seed:
  fixes self :: "'r generator"
  assumes "seed request = Some s"
  shows "rephrase ops self request base_text now = rephrase ops self request other_text now \<and>
    (\<forall>other :: 'r generator. templates other = templates self \<longrightarrow>
       rephrase ops other request base_text now = rephrase ops self request base_text now) \<and>
    (rephrase ops self request base_text now =
       generate ops self (request\<lparr>seed := Some (s + 1)\<rparr>) now \<or>
     (\<exists>t k self2.
        choose_template ops (self\<lparr>random := rseed ops (s + 1)\<rparr>) (category request)
          (tone request) = (Return t, self2) \<and>
        format_str t (build_context request now) = Raise (KeyError k) \<and>
        rephrase ops self request base_text now = (Raise (KeyError k), self2) \<and>
        generate ops self (request\<lparr>seed := Some (s + 1)\<rparr>) now = vary ops self2 t request)) \<and>
    (templates self = load_templates \<longrightarrow>
       rephrase ops self request base_text now =
         generate ops self (request\<lparr>seed := Some (s + 1)\<rparr>) now)"
proof -
  let ?next = "request\<lparr>seed := Some (s + 1)\<rparr>"
  let ?self1 = "self\<lparr>random := rseed ops (s + 1)\<rparr>"
  have seeded: "reseed ops g (map_option (\<lambda>s. s + 1) (seed request)) =
      g\<lparr>random := rseed ops (s + 1)\<rparr>"
    "reseed ops g (seed ?next) = g\<lparr>random := rseed ops (s + 1)\<rparr>" for g :: "'r generator"
    using assms by (simp_all add: reseed_def)
  obtain r self2 where ch: "choose_template ops ?self1 (category request) (tone request) =
      (r, self2)"
    by (cases "choose_template ops ?self1 (category request) (tone request)")
  have reph: "rephrase ops self request b now =
     (case r of
        Raise e \<Rightarrow> (Raise e, self2)
      | Unmodelled \<Rightarrow> (Unmodelled, self2)
      | Return template \<Rightarrow>
          (case format_str template (build_context request now) of
             Raise e \<Rightarrow> (Raise e, self2)
           | Unmodelled \<Rightarrow> (Unmodelled, self2)
           | Return text \<Rightarrow> vary ops self2 text request))" for b
    using ch by (intro rephrase_after_choice) (simp add: seeded)
  have gen: "generate ops self ?next now =
     (case r of
        Raise e \<Rightarrow> (Raise e, self2)
      | Unmodelled \<Rightarrow> (Unmodelled, self2)
      | Return template \<Rightarrow>
          (case format_str template (build_context request now) of
             Raise (KeyError k) \<Rightarrow> vary ops self2 template request
           | Raise e \<Rightarrow> (Raise e, self2)
           | Unmodelled \<Rightarrow> (Unmodelled, self2)
           | Return text \<Rightarrow> vary ops self2 text request))"
  proof -
    from ch have "choose_template ops (reseed ops self (seed ?next)) (category ?next)
        (tone ?next) = (r, self2)"
      by (simp add: reseed_def)
    from generate_after_choice [OF this] show ?thesis
      unfolding build_context_ignores_seed vary_ignores_seed .
  qed
  have prior: "rephrase ops self request base_text now = rephrase ops self request other_text now"
    by (simp only: reph)
  have repro: "rephrase ops other request base_text now = rephrase ops self request base_text now"
    if "templates other = templates self" for other :: "'r generator"
    unfolding rephrase_def seeded by (subst same_templates_reseeded [OF that]) (rule refl)
  have rel: "rephrase ops self request base_text now = generate ops self ?next now \<or>
     (\<exists>t k self2.
        choose_template ops ?self1 (category request) (tone request) = (Return t, self2) \<and>
        format_str t (build_context request now) = Raise (KeyError k) \<and>
        rephrase ops self request base_text now = (Raise (KeyError k), self2) \<and>
        generate ops self ?next now = vary ops self2 t request)"
  proof (cases r)
    case (Return template)
    show ?thesis
    proof (cases "format_str template (build_context request now)")
      case (Raise e)
      show ?thesis
      proof (cases e)
        case (KeyError k)
        with Return Raise ch reph gen show ?thesis
          by auto
      qed (use Return Raise reph gen in simp_all)
    qed (use Return reph gen in simp_all)
  qed (use reph gen in simp_all)
  have builtin: "rephrase ops self request base_text now = generate ops self ?next now"
    if "templates self = load_templates"
  proof (cases r)
    case (Return template)
    with ch have "choose_template ops ?self1 (category request) (tone request) =
        (Return template, self2)"
      by simp
    from choose_template_member [OF this]
    have "template \<in> set (all_templates (templates self))"
      by simp
    with that obtain rendered
      where "format_str template (build_context request now) = Return rendered"
      using builtin_render_returns [of template request now] by auto
    with Return reph gen show ?thesis
      by simp
  qed (use reph gen in simp_all)
  from prior repro rel builtin show ?thesis
    by blast
qed


lemmas eval_generate =
  generate_def rephrase_def reseed_def choose_template_def choice_def counter_ops_def
  new_generator_def load_templates_def em_dash_def build_context_def vary_def strip_def
  format_field_def prepend_def ascii_digit_def is_space_def Let_def

lemma general_generate:
  "fst (generate counter_ops (new_generator (3::nat)) general_request monday_night) =
     Return (u ''Sorry for the short notice. Something unexpected came up, so I can't complete the task by today. I'll share a simple plan and new time.'')"
  by (simp add: eval_generate general_request_def u_def)

lemma general_rephrase:
  "fst (rephrase counter_ops (new_generator (3::nat)) general_request (u ''old'') monday_night) =
     Return (u ''Apologies'' @ em_dash @ u ''an issue popped up and needs my attention. I'll update on the deliverable by tomorrow.'')"
  by (simp add: eval_generate general_request_def u_def)


theorem generate_deterministic_with_seed_witness:
  "seed general_request = Some 0 \<and>
   templates (new_generator (3::nat)) = templates (new_generator 7) \<and>
   generate counter_ops (new_generator 3) general_request monday_night =
     generate counter_ops (new_generator 7) general_request monday_night \<and>
   fst (generate counter_ops (new_generator 7) general_request monday_night) =
     Return (u ''Sorry for the short notice. Something unexpected came up, so I can't complete the task by today. I'll share a simple plan and new time.'')"
proof -
  have h: "seed general_request = Some 0"
    "templates (new_generator (3::nat)) = templates (new_generator 7)"
    by (simp_all add: general_request_def new_generator_def)
  from generate_deterministic_with_seed [OF h, of counter_ops monday_night]
  have "generate counter_ops (new_generator 3) general_request monday_night =
     generate counter_ops (new_generator 7) general_request monday_night"
    by blast
  with h general_generate show ?thesis
    by simp
qed

theorem rephrase_uses_next_seed_witness:
  "seed general_request = Some 0 \<and> templates (new_generator (3::nat)) = load_templates \<and>
   rephrase counter_ops (new_generator 3) general_request (u ''old'') monday_night =
     generate counter_ops (new_generator 3) (general_request\<lparr>seed := Some (0 + 1)\<rparr>)
       monday_night \<and>
   fst (generate counter_ops (new_generator 3) (general_request\<lparr>seed := Some (0 + 1)\<rparr>)
       monday_night) =
     Return (u ''Apologies'' @ em_dash @ u ''an issue popped up and needs my attention. I'll update on the deliverable by tomorrow.'') \<and>
   fst (generate counter_ops (new_generator 3) general_request monday_night) =
     Return (u ''Sorry for the short notice. Something unexpected came up, so I can't complete the task by today. I'll share a simple plan and new time.'')"
proof -
  have h: "seed general_request = Some 0"
    and t: "templates (new_generator (3::nat)) = load_templates"
    by (simp_all add: general_request_def new_generator_def)
  from rephrase_uses_next_seed [OF h, of counter_ops "new_generator 3" "u ''old''" monday_night] t
  have "rephrase counter_ops (new_generator 3) general_request (u ''old'') monday_night =
     generate counter_ops (new_generator 3) (general_request\<lparr>seed := Some (0 + 1)\<rparr>)
       monday_night"
    by blast
  with h t general_rephrase general_generate show ?thesis
    by simp
qed

section \<open>A placeholder the context lacks\<close>

lemma generate_falls_back:
  assumes "choose_template ops (reseed ops self (seed request)) (category request)
      (tone request) = (Return t, self2)"
    and "format_str t (build_context request now) = Raise (KeyError k)"
  shows "generate ops self request now = vary ops self2 t request"
  using assms by (simp add: generate_after_choice)

lemma rephrase_raises:
  assumes "choose_template ops (reseed ops self (map_option (\<lambda>s. s + 1) (seed request)))
      (category request) (tone request) = (Return t, self2)"
    and "format_str t (build_context request now) = Raise (KeyError k)"
  shows "rephrase ops self request base_text now = (Raise (KeyError k), self2)"
  using assms by (simp add: rephrase_after_choice)

text \<open>
  Claim C1, at a template that names a placeholder the context lacks. The catalog of the
  generator holds the one template \<open>Details: {notes}.\<close> and the request has no custom
  context, so the context has no \<open>notes\<close> key. \<open>generate\<close> returns the template text
  unsubstituted; \<open>rephrase\<close>, which has no \<open>try\<close> around the renderer, raises KeyError.
\<close>

theorem rephrase_raises_on_missing_placeholder:
  "fst (generate counter_ops extended_generator general_request monday_night) =
     Return (u ''Details: {notes}.'') \<and>
   fst (rephrase counter_ops extended_generator general_request (u ''Details: {notes}.'')
     monday_night) = Raise (KeyError (u ''notes''))"
  by (simp add: eval_generate extended_generator_def general_request_def u_def)

section \<open>The folder of the history\<close>

text \<open>Whatever the request says, \<open>persist\<close> touches two paths only.\<close>

lemma persist_touches_history_only:
  "dom (snd (persist fs now1 now2 text)) \<subseteq>
     dom fs \<union> {[u ''.history''],
                [u ''.history'', u ''history_'' @ strftime now1 ''%Y%m%d'' @ u ''.jsonl'']}"
  unfolding persist_def Let_def
  by (auto split: option.splits node.splits if_splits)

text \<open>
  Claim C2, at a request whose \<open>persist_dir\<close> is \<open>/data/excuses\<close>. After the Generate
  button on an empty file system, the only directory is \<open>.history\<close> under the working
  directory and the only file is \<open>.history/history_20240101.jsonl\<close>, holding the one
  record: the folder of the request is not used.
\<close>

theorem persist_ignores_configured_folder:
  "persist_dir folder_request = Some (u ''/data/excuses'') \<and>
   (case generate_clicked counter_ops (new_generator (3::nat)) Map.empty folder_request
      monday_night monday_night monday_night of
      (r, g, fs) \<Rightarrow>
        dom fs = {[u ''.history'', u ''history_20240101.jsonl''], [u ''.history'']} \<and>
        fs [u ''.history''] = Some Dir \<and>
        fs [u ''.history'', u ''history_20240101.jsonl''] =
          Some (File (json_record (u ''2024-01-01T22:47:05'')
            (u ''Sorry for the short notice. Something unexpected came up, so I can't complete the task by today. I'll share a simple plan and new time.'') @ [10])))"
  by (simp add: eval_generate generate_clicked_def persist_def folder_request_def
      numeral_2_eq_2 [symmetric] json_record_def json_string_def json_escape_def surrogate_def
      isoformat_def strftime_def directive_def zpad_def dec.simps monday_night_def u_def)


section \<open>The length adjuster: Short and Medium\<close>

lemma full_stop_not_space: "\<not> is_space 46"
  by (simp add: is_space_def)

lemma strip_unchanged:
  assumes "x \<noteq> []" and "\<not> is_space (hd x)" and "\<not> is_space (last x)"
  shows "strip x = x"
proof -
  from assms have "dropWhile is_space x = x"
    by (cases x) simp_all
  moreover from assms have "dropWhile is_space (rev x) = rev x"
    by (cases "rev x") (simp_all add: hd_rev)
  ultimately show ?thesis
    by (simp add: strip_def)
qed

lemma strip_leading_spaces:
  assumes "\<forall>c\<in>set w. is_space c"
  shows "strip (w @ x) = strip x"
  using assms by (simp add: strip_def dropWhile_append2)

lemma before_first_skips_spaces:
  "before_first (u ''. '') t =
     takeWhile is_space t @ before_first (u ''. '') (dropWhile is_space t)"
proof (induction t)
  case Nil
  then show ?case by simp
next
  case (Cons c cs)
  show ?case
  proof (cases "is_space c")
    case True
    with full_stop_not_space have "c \<noteq> 46"
      by auto
    then have "take (length (u ''. '')) (c # cs) \<noteq> u ''. ''"
      by (simp add: u_def)
    with True Cons show ?thesis
      by simp
  next
    case False
    then show ?thesis by simp
  qed
qed

lemma before_first_head:
  "before_first sep (c # cs) = [] \<or> hd (before_first sep (c # cs)) = c"
  by simp

lemma short_is_first_sentence:
  assumes "t \<noteq> []" and "\<not> is_space (last t)"
  shows "strip (before_first (u ''. '') t @ u ''.'') = first_sentence (strip t)"
proof -
  let ?w = "takeWhile is_space t" and ?d = "dropWhile is_space t"
  from assms have "\<exists>c\<in>set t. \<not> is_space c"
    using last_in_set by blast
  then have d: "?d \<noteq> []"
    by (simp add: dropWhile_eq_Nil_conv)
  then have hd: "\<not> is_space (hd ?d)"
    using hd_dropWhile by blast
  from d have "last ?d = last t"
    by (metis append_self_conv2 last_appendR takeWhile_dropWhile_id)
  with assms have last: "\<not> is_space (last ?d)"
    by simp
  let ?x = "before_first (u ''. '') ?d @ u ''.''"
  have x: "?x \<noteq> []" "\<not> is_space (last ?x)"
    using full_stop_not_space by (simp_all add: u_def)
  have hx: "\<not> is_space (hd ?x)"
  proof (cases ?d)
    case Nil
    with d show ?thesis by simp
  next
    case (Cons c cs)
    with hd have "\<not> is_space c"
      by simp
    with before_first_head [of "u ''. ''" c cs] full_stop_not_space Cons show ?thesis
      by (auto simp add: u_def hd_append)
  qed
  from x(1) hx x(2) have sx: "strip ?x = ?x"
    by (rule strip_unchanged)
  have "strip (before_first (u ''. '') t @ u ''.'') = strip (?w @ ?x)"
    by (subst before_first_skips_spaces) simp
  also have "\<dots> = strip ?x"
    by (rule strip_leading_spaces) (auto dest: set_takeWhileD)
  finally have left: "strip (before_first (u ''. '') t @ u ''.'') = ?x"
    using sx by simp
  from d hd last have "strip ?d = ?d"
    by (rule strip_unchanged)
  moreover have "strip t = strip ?d"
    using strip_leading_spaces [of ?w ?d] by (auto dest: set_takeWhileD)
  ultimately have "first_sentence (strip t) = ?x"
    by (simp add: first_sentence_def)
  with left show ?thesis
    by simp
qed

text \<open>
  Claim C5, as amended. For a rendered text of at most 140 characters the Short output is
  the Medium output. For a rendered text of more than 140 characters that does not end
  in whitespace, the Short output is the first-sentence truncation of the Medium output,
  and so no longer than it.
\<close>

theorem short_versus_medium:
  "(length t \<le> 140 \<longrightarrow>
      vary ops self t (request\<lparr>req_length := u ''Short''\<rparr>) =
        vary ops self t (request\<lparr>req_length := u ''Medium''\<rparr>)) \<and>
   (length t > 140 \<and> \<not> is_space (last t) \<longrightarrow>
      (\<exists>s m. vary ops self t (request\<lparr>req_length := u ''Short''\<rparr>) = (Return s, self) \<and>
         vary ops self t (request\<lparr>req_length := u ''Medium''\<rparr>) = (Return m, self) \<and>
         s = first_sentence m \<and> length s \<le> length (first_sentence m)))"
proof (intro conjI impI)
  assume "length t \<le> 140"
  then show "vary ops self t (request\<lparr>req_length := u ''Short''\<rparr>) =
        vary ops self t (request\<lparr>req_length := u ''Medium''\<rparr>)"
    by (simp add: vary_def)
next
  assume h: "length t > 140 \<and> \<not> is_space (last t)"
  then have "t \<noteq> []"
    by auto
  with h have "strip (before_first (u ''. '') t @ u ''.'') = first_sentence (strip t)"
    by (simp add: short_is_first_sentence)
  with h show "\<exists>s m. vary ops self t (request\<lparr>req_length := u ''Short''\<rparr>) = (Return s, self) \<and>
         vary ops self t (request\<lparr>req_length := u ''Medium''\<rparr>) = (Return m, self) \<and>
         s = first_sentence m \<and> length s \<le> length (first_sentence m)"
    by (simp add: vary_def)
qed


lemma brief_text_rendered:
  "fst (generate counter_ops (new_generator (0::nat))
     (general_request\<lparr>category := u ''Work Deadline'', tone := u ''Brief''\<rparr>) monday_night) =
   Return brief_text"
  by (simp add: eval_generate general_request_def brief_text_def u_def)

lemma long_text_rendered:
  "fst (generate counter_ops (new_generator (0::nat))
     (general_request\<lparr>specificity := 8\<rparr>) monday_night) = Return long_text"
  by (simp add: eval_generate general_request_def long_text_def strftime_def directive_def
      eval_time)

text \<open>
  Claim C5 as stated fails on a text of at most 140 characters with a sentence boundary:
  the Short output is the whole text, longer than the first sentence of the Medium output.
  The text is what the Work Deadline / Brief template renders to below specificity 4.
\<close>

theorem short_exceeds_first_sentence_counterexample:
  "vary counter_ops (new_generator (0::nat)) brief_text
     (general_request\<lparr>req_length := u ''Short''\<rparr>) = (Return brief_text, new_generator 0) \<and>
   vary counter_ops (new_generator (0::nat)) brief_text
     (general_request\<lparr>req_length := u ''Medium''\<rparr>) = (Return brief_text, new_generator 0) \<and>
   first_sentence brief_text = u ''Delay on the deliverable due to a blocker.'' \<and>
   \<not> length brief_text \<le> length (first_sentence brief_text)"
  by (simp add: vary_def strip_def is_space_def first_sentence_def brief_text_def u_def)

theorem short_versus_medium_witness:
  "length brief_text \<le> 140 \<and>
   vary counter_ops (new_generator (0::nat)) brief_text
       (general_request\<lparr>req_length := u ''Short''\<rparr>) =
     vary counter_ops (new_generator 0) brief_text (general_request\<lparr>req_length := u ''Medium''\<rparr>) \<and>
   length long_text > 140 \<and> \<not> is_space (last long_text) \<and>
   vary counter_ops (new_generator (0::nat)) long_text
       (general_request\<lparr>req_length := u ''Short''\<rparr>) =
     (Return (u ''Sorry for the short notice.''), new_generator 0) \<and>
   vary counter_ops (new_generator (0::nat)) long_text
       (general_request\<lparr>req_length := u ''Medium''\<rparr>) = (Return long_text, new_generator 0)"
proof -
  let ?g = "new_generator (0::nat)"
  have b: "length brief_text \<le> 140"
    by (simp add: brief_text_def u_def)
  have l: "length long_text > 140 \<and> \<not> is_space (last long_text)"
    by (simp add: long_text_def u_def is_space_def)
  have m: "vary counter_ops ?g long_text (general_request\<lparr>req_length := u ''Medium''\<rparr>) =
      (Return long_text, ?g)"
    by (simp add: vary_def strip_def is_space_def long_text_def u_def)
  have f: "first_sentence long_text = u ''Sorry for the short notice.''"
    by (simp add: first_sentence_def long_text_def u_def)
  note inst = short_versus_medium [of brief_text counter_ops ?g general_request]
    short_versus_medium [of long_text counter_ops ?g general_request]
  from inst(1) b have 1: "vary counter_ops ?g brief_text (general_request\<lparr>req_length := u ''Short''\<rparr>) =
     vary counter_ops ?g brief_text (general_request\<lparr>req_length := u ''Medium''\<rparr>)"
    by blast
  from inst(2) l obtain s m
    where "vary counter_ops ?g long_text (general_request\<lparr>req_length := u ''Short''\<rparr>) =
        (Return s, ?g)"
      and "vary counter_ops ?g long_text (general_request\<lparr>req_length := u ''Medium''\<rparr>) =
        (Return m, ?g)"
      and "s = first_sentence m"
    by blast
  with m f have 2: "vary counter_ops ?g long_text (general_request\<lparr>req_length := u ''Short''\<rparr>) =
     (Return (u ''Sorry for the short notice.''), ?g)"
    by simp
  from b 1 l 2 m show ?thesis
    by blast
qed


end
